theory Spec2Isabelle
  imports Main
begin

section \<open>User registration: Cognito identity linked to a DynamoDB profile\<close>

text \<open>
  A shallow embedding of \<^verbatim>\<open>services/user/register.ts\<close> (\<^verbatim>\<open>registerUser\<close>,
  \<^verbatim>\<open>registerCognitoUser\<close>, \<^verbatim>\<open>getCognitoUserId\<close>, \<^verbatim>\<open>checkCollisions\<close>) and of
  \<^verbatim>\<open>services/dynamo/user-table/create.ts\<close> (\<^verbatim>\<open>createUser\<close>).

  Every \<^verbatim>\<open>await\<close> of the source is a step of a state-passing function: the state is
  the profile table together with the trace of every call made to an external
  collaborator and of every log line, in the order the code makes them. A \<^verbatim>\<open>throw\<close>
  is the left injection of a sum; the state at the moment of the throw is returned
  beside it, so that what had already happened stays observable.
\<close>

subsection \<open>Data model\<close>

text \<open>The request body, \<^verbatim>\<open>UserCreateInput\<close>.\<close>

record UserCreateInput =
  name :: string
  email :: string
  password :: string
  repeatPassword :: string
  sourceIp :: string
  sourceSystem :: string

text \<open>
  \<^verbatim>\<open>AttributeType\<close> and \<^verbatim>\<open>UserType\<close> of the Cognito SDK. Every member of both is
  optional in the SDK's declaration; \<^verbatim>\<open>undefined\<close> is \<open>None\<close>.
\<close>

record AttributeType =
  Name :: "string option"
  Value :: "string option"

record UserType =
  Username :: "string option"
  Attributes :: "AttributeType list option"

datatype COGNITO_USER_GROUP = USER | ADMIN

record Bio =
  avatarUrl :: string

text \<open>
  The profile record, \<^verbatim>\<open>User\<close>. The field \<^verbatim>\<open>id\<close> holds whatever
  \<^verbatim>\<open>getCognitoUserId\<close> returned, which at run time is a string or \<^verbatim>\<open>undefined\<close>;
  it is written \<open>id'\<close> here because \<open>id\<close> is the identity function of HOL. The
  fields \<^verbatim>\<open>name\<close>, \<^verbatim>\<open>email\<close>, \<^verbatim>\<open>sourceIp\<close> and \<^verbatim>\<open>sourceSystem\<close> share their names
  with the request's: \<open>User.name\<close> is the profile's, \<open>UserCreateInput.name\<close> the
  request's.
\<close>

record User =
  id' :: "string option"
  createdAt :: string
  email :: string
  name :: string
  handle :: string
  activationCode :: string
  sourceIp :: string
  role :: string
  status :: string
  badges :: "string list"
  bio :: Bio
  data :: "(string \<times> string) list"
  sourceSystem :: string

text \<open>
  Modelled from the spec: the class \<^verbatim>\<open>UserModel\<close> (\<^verbatim>\<open>models/user-model\<close>) is not among
  the sources. The spec calls the result ``the wrapped profile model'', ``a profile
  model object exposing at least id, email, name, status'': a wrapper around the
  record it was constructed from.
\<close>

datatype UserModel = UserModel (user: User)

subsection \<open>Errors\<close>

text \<open>
  What a step can throw: an error made by \<^verbatim>\<open>createError(status, message)\<close> of
  \<^verbatim>\<open>http-errors\<close>, the \<^verbatim>\<open>TypeError\<close> of the JavaScript runtime when a member of
  \<^verbatim>\<open>undefined\<close> is read, or an error thrown inside an external collaborator, which
  this code neither catches nor changes.
\<close>

datatype failure =
  HttpError nat string
  | TypeError
  | Propagated string

definition createError :: "nat \<Rightarrow> string \<Rightarrow> failure" where
  "createError st msg = HttpError st msg"

text \<open>The error object a rejected \<^verbatim>\<open>client.send\<close> carries, read as \<^verbatim>\<open>{ name, message }\<close>.\<close>

record store_error =
  err_name :: string
  err_message :: string

subsection \<open>The observable state\<close>

datatype level = Debug | Info | Error

datatype log_data =
  NoData
  | InputData UserCreateInput
  | RegisteredData User UserType
  | ActivationCodeCollisionData string string
  | IdCollisionData string

datatype event =
  CognitoCreateUser string string
  | CognitoSetPassword string string
  | CognitoAddUserToGroups string "COGNITO_USER_GROUP list"
  | DynamoGetUserByActivationCode string
  | DynamoGetUserById string
  | DynamoPutItem User
  | Log level string log_data

record world =
  table :: "User list"
  trace :: "event list"

definition emit :: "event \<Rightarrow> world \<Rightarrow> world" where
  "emit ev w = w\<lparr>trace := trace w @ [ev]\<rparr>"

definition logger :: "level \<Rightarrow> string \<Rightarrow> log_data \<Rightarrow> world \<Rightarrow> world" where
  "logger lv msg d w = emit (Log lv msg d) w"

fun is_provider_call :: "event \<Rightarrow> bool" where
  "is_provider_call (CognitoCreateUser _ _) = True"
| "is_provider_call (CognitoSetPassword _ _) = True"
| "is_provider_call (CognitoAddUserToGroups _ _) = True"
| "is_provider_call _ = False"

fun is_store_lookup :: "event \<Rightarrow> bool" where
  "is_store_lookup (DynamoGetUserByActivationCode _) = True"
| "is_store_lookup (DynamoGetUserById _) = True"
| "is_store_lookup _ = False"

fun is_store_insert :: "event \<Rightarrow> bool" where
  "is_store_insert (DynamoPutItem _) = True"
| "is_store_insert _ = False"

fun is_error_log :: "event \<Rightarrow> bool" where
  "is_error_log (Log Error _ _) = True"
| "is_error_log _ = False"

fun is_log :: "event \<Rightarrow> bool" where
  "is_log (Log _ _ _) = True"
| "is_log _ = False"

text \<open>The events a run added to the trace it started from.\<close>

definition new_events :: "world \<Rightarrow> world \<Rightarrow> event list" where
  "new_events w w' = drop (length (trace w)) (trace w')"

subsection \<open>External collaborators\<close>

text \<open>
  The modules the source imports and this development does not have are parameters:
  the Cognito adapters (\<^verbatim>\<open>cognito/create-user\<close>, \<^verbatim>\<open>cognito/set-password\<close>,
  \<^verbatim>\<open>cognito/groups/add-groups\<close>), the table lookups (\<^verbatim>\<open>dynamo/user-table/get\<close>),
  \<^verbatim>\<open>getNanoId\<close> and \<^verbatim>\<open>toPascalCase\<close> of \<^verbatim>\<open>utils/string\<close>, the constant
  \<^verbatim>\<open>DEFAULT_USER_AVATAR_URL\<close>, the clock behind \<^verbatim>\<open>new Date().toISOString()\<close>, and the
  faults of the DynamoDB client other than the failed condition. An adapter answers
  with its value or with the message of the error it throws; a lookup reads the table
  and cannot change it.
\<close>

record env =
  createCognitoUser :: "string \<Rightarrow> string \<Rightarrow> string + UserType"
  setPassword :: "string \<Rightarrow> string \<Rightarrow> string option"
  addUserToGroups :: "string \<Rightarrow> COGNITO_USER_GROUP list \<Rightarrow> string option"
  getUserByActivationCode :: "User list \<Rightarrow> string \<Rightarrow> string + User option"
  getUserById :: "User list \<Rightarrow> string \<Rightarrow> string + User option"
  getNanoId :: string
  toISOString :: string
  toPascalCase :: "string \<Rightarrow> string"
  DEFAULT_USER_AVATAR_URL :: string
  sendFault :: "User list \<Rightarrow> User \<Rightarrow> store_error option"

text \<open>
  Modelled from the spec: \<^verbatim>\<open>collapseSpaces\<close> of \<^verbatim>\<open>utils/string\<close> is not among the
  sources. The spec: ``collapse internal whitespace runs to single spaces, trim
  ends''; the second argument of the call, \<^verbatim>\<open>true\<close>, asks for the trimming.
\<close>

definition is_space :: "char \<Rightarrow> bool" where
  "is_space c = (c \<in> set [CHR '' '', CHR 0x09, CHR 0x0A, CHR 0x0B, CHR 0x0C, CHR 0x0D])"

fun collapse_runs :: "string \<Rightarrow> string" where
  "collapse_runs [] = []"
| "collapse_runs [c] = [if is_space c then CHR '' '' else c]"
| "collapse_runs (c # d # cs) =
     (if is_space c \<and> is_space d then collapse_runs (d # cs)
      else (if is_space c then CHR '' '' else c) # collapse_runs (d # cs))"

definition trim :: "string \<Rightarrow> string" where
  "trim s = rev (dropWhile is_space (rev (dropWhile is_space s)))"

definition collapseSpaces :: "string \<Rightarrow> bool \<Rightarrow> string" where
  "collapseSpaces s t = (let r = collapse_runs s in if t then trim r else r)"

text \<open>
  Modelled from the spec: the DynamoDB client behind \<^verbatim>\<open>client.send(command)\<close> for a
  \<^verbatim>\<open>PutItemCommand\<close> with \<^verbatim>\<open>ConditionExpression: 'attribute_not_exists(id)'\<close>. The spec:
  ``insert(record), conditioned on the record's id not already existing; fails with a
  distinguishable "conditional check failed" signal if the condition is violated''.
  Any other fault is the environment's.
\<close>

definition client_send :: "env \<Rightarrow> User \<Rightarrow> world \<Rightarrow> (store_error + unit) \<times> world" where
  "client_send e u w =
     (let w1 = emit (DynamoPutItem u) w in
      case sendFault e (table w) u of
        Some err \<Rightarrow> (Inl err, w1)
      | None \<Rightarrow>
          if list_ex (\<lambda>r. id' r = id' u) (table w)
          then (Inl \<lparr>err_name = ''ConditionalCheckFailedException'',
                     err_message = ''The conditional request failed''\<rparr>, w1)
          else (Inr (), w1\<lparr>table := table w @ [u]\<rparr>))"

subsection \<open>\<^verbatim>\<open>services/dynamo/user-table/create.ts\<close>\<close>

text \<open>
  \<^verbatim>\<open>marshall\<close> of \<^verbatim>\<open>@aws-sdk/util-dynamodb\<close>, called with no options, throws a plain
  \<^verbatim>\<open>Error\<close> when a member of the object is \<^verbatim>\<open>undefined\<close>. The only member of a
  \<^verbatim>\<open>User\<close> that can be \<^verbatim>\<open>undefined\<close> here is \<^verbatim>\<open>id\<close>. The marshalled item is
  written as the record it was made from.
\<close>

definition marshall :: "User \<Rightarrow> failure + User" where
  "marshall u =
     (case id' u of
        None \<Rightarrow>
          Inl (Propagated
            ''Pass options.removeUndefinedValues=true to remove undefined values from map/array/set.'')
      | Some _ \<Rightarrow> Inr u)"

text \<open>
  \<^verbatim>\<open>createUser\<close>, which \<^verbatim>\<open>register.ts\<close> imports as \<^verbatim>\<open>createDynamoDbUser\<close>. The command
  is built before the \<^verbatim>\<open>try\<close>: what \<^verbatim>\<open>marshall\<close> throws is not caught, and
  \<^verbatim>\<open>client.send\<close> is not called then. \<^verbatim>\<open>getConfig\<close>, which gives the table name, is
  taken to return. The \<^verbatim>\<open>catch\<close> reads \<^verbatim>\<open>name\<close> and \<^verbatim>\<open>message\<close> of whatever
  \<^verbatim>\<open>client.send\<close> threw. A template literal prints \<^verbatim>\<open>undefined\<close> as the word.
\<close>

definition template :: "string option \<Rightarrow> string" where
  "template v = (case v of None \<Rightarrow> ''undefined'' | Some s \<Rightarrow> s)"

definition createUser :: "env \<Rightarrow> User \<Rightarrow> world \<Rightarrow> (failure + unit) \<times> world" where
  "createUser e u w =
     (case marshall u of
        Inl x \<Rightarrow> (Inl x, w)
      | Inr item \<Rightarrow>
          (case client_send e item w of
             (Inr _, w1) \<Rightarrow> (Inr (), w1)
           | (Inl err, w1) \<Rightarrow>
               if err_name err = ''ConditionalCheckFailedException''
               then (Inl (createError 400
                            (''User id '' @ template (id' u) @ '' already exists'')), w1)
               else (Inl (createError 500 ''User registration error''),
                     logger Error (''createUser '' @ err_name err @ '': '' @ err_message err)
                       NoData w1)))"

subsection \<open>\<^verbatim>\<open>services/user/register.ts\<close>\<close>

definition registerCognitoUser ::
  "env \<Rightarrow> string \<Rightarrow> string \<Rightarrow> string \<Rightarrow> COGNITO_USER_GROUP \<Rightarrow> world \<Rightarrow> (failure + UserType) \<times> world"
where
  "registerCognitoUser e email' name' password' grp w =
     (let w1 = emit (CognitoCreateUser email' name') w in
      case createCognitoUser e email' name' of
        Inl x \<Rightarrow> (Inl (Propagated x), w1)
      | Inr cognitoUser \<Rightarrow>
          (let w2 = emit (CognitoSetPassword email' password') w1 in
           case setPassword e email' password' of
             Some x \<Rightarrow> (Inl (Propagated x), w2)
           | None \<Rightarrow>
               (let w3 = emit (CognitoAddUserToGroups email' [grp]) w2 in
                case addUserToGroups e email' [grp] of
                  Some x \<Rightarrow> (Inl (Propagated x), w3)
                | None \<Rightarrow> (Inr cognitoUser, w3))))"

text \<open>
  \<^verbatim>\<open>Attributes.find(...)\<close> reads a member of \<^verbatim>\<open>Attributes\<close>: on \<^verbatim>\<open>undefined\<close> the
  runtime throws a \<^verbatim>\<open>TypeError\<close>. \<^verbatim>\<open>find\<close> returns the first match, \<^verbatim>\<open>sub?.Value\<close> is
  \<^verbatim>\<open>undefined\<close> when there is none.
\<close>

definition getCognitoUserId :: "UserType \<Rightarrow> failure + string option" where
  "getCognitoUserId cognitoUser =
     (case Attributes cognitoUser of
        None \<Rightarrow> Inl TypeError
      | Some attrs \<Rightarrow>
          (case find (\<lambda>attr. Name attr = Some ''sub'') attrs of
             None \<Rightarrow> Inr None
           | Some sub \<Rightarrow> Inr (Value sub)))"

text \<open>
  The parameter \<^verbatim>\<open>id\<close> is \<open>uid\<close> here. \<^verbatim>\<open>!id\<close> holds of \<^verbatim>\<open>undefined\<close> and of
  the empty string; past that test \<^verbatim>\<open>id\<close> is a non-empty string, \<open>idv\<close>.
\<close>

definition checkCollisions :: "env \<Rightarrow> string option \<Rightarrow> string \<Rightarrow> world \<Rightarrow> (failure + unit) \<times> world" where
  "checkCollisions e uid activationCode' w =
     (case (case uid of None \<Rightarrow> None | Some s \<Rightarrow> if s = [] then None else Some s) of
        None \<Rightarrow>
          (Inl (createError 500 ''User registration failed: Cognito did not return a sub/id''), w)
      | Some idv \<Rightarrow>
          (let w1 = emit (DynamoGetUserByActivationCode activationCode') w in
           case getUserByActivationCode e (table w1) activationCode' of
             Inl x \<Rightarrow> (Inl (Propagated x), w1)
           | Inr (Some _) \<Rightarrow>
               (Inl (createError 500 ''User registration failed: activationCode collision''),
                logger Error ''User activationCode collision''
                  (ActivationCodeCollisionData idv activationCode') w1)
           | Inr None \<Rightarrow>
               (let w2 = emit (DynamoGetUserById idv) w1 in
                case getUserById e (table w2) idv of
                  Inl x \<Rightarrow> (Inl (Propagated x), w2)
                | Inr (Some _) \<Rightarrow>
                    (Inl (createError 500 ''User registration failed: User id collision''),
                     logger Error ''User ID collision'' (IdCollisionData idv) w2)
                | Inr None \<Rightarrow> (Inr (), w2))))"

definition registerUser :: "env \<Rightarrow> UserCreateInput \<Rightarrow> world \<Rightarrow> (failure + UserModel) \<times> world" where
  "registerUser e input w =
     (let w0 = logger Debug ''Start user registration'' (InputData input) w in
      if password input \<noteq> repeatPassword input
      then (Inl (createError 400 ''Password and repeat password must match''), w0)
      else
        (let name' = collapseSpaces (UserCreateInput.name input) True;
             email' = collapseSpaces (UserCreateInput.email input) True in
         case registerCognitoUser e email' name' (password input) USER w0 of
           (Inl x, w1) \<Rightarrow> (Inl x, w1)
         | (Inr cognitoUser, w1) \<Rightarrow>
             (case getCognitoUserId cognitoUser of
                Inl x \<Rightarrow> (Inl x, w1)
              | Inr uid \<Rightarrow>
                  (let activationCode' = getNanoId e in
                   case checkCollisions e uid activationCode' w1 of
                     (Inl x, w2) \<Rightarrow> (Inl x, w2)
                   | (Inr _, w2) \<Rightarrow>
                       (let user' = \<lparr>id' = uid,
                                    createdAt = toISOString e,
                                    email = email',
                                    name = name',
                                    handle = ''@'' @ toPascalCase e name',
                                    activationCode = activationCode',
                                    sourceIp = UserCreateInput.sourceIp input,
                                    role = ''USER'',
                                    status = ''UNCONFIRMED'',
                                    badges = [''NEW_MEMBER''],
                                    bio = \<lparr>avatarUrl = DEFAULT_USER_AVATAR_URL e\<rparr>,
                                    data = [],
                                    sourceSystem = UserCreateInput.sourceSystem input\<rparr> in
                        case createUser e user' w2 of
                          (Inl x, w3) \<Rightarrow> (Inl x, w3)
                        | (Inr _, w3) \<Rightarrow>
                            (Inr (UserModel user'),
                             logger Info ''New user registration complete''
                               (RegisteredData user' cognitoUser) w3))))))"

subsection \<open>Concrete runs\<close>

text \<open>
  A concrete environment for running the definitions: every Cognito call succeeds and
  answers with the given identity record, the lookups search the table, the DynamoDB
  client has no fault of its own, and \<^verbatim>\<open>toPascalCase\<close> capitalises each word and drops
  the spaces between them.
\<close>

definition upper :: "char \<Rightarrow> char" where
  "upper c =
     (case map_of (zip ''abcdefghijklmnopqrstuvwxyz'' ''ABCDEFGHIJKLMNOPQRSTUVWXYZ'') c of
        None \<Rightarrow> c
      | Some u \<Rightarrow> u)"

fun pascal :: "bool \<Rightarrow> string \<Rightarrow> string" where
  "pascal up [] = []"
| "pascal up (c # cs) =
     (if c = CHR '' '' then pascal True cs else (if up then upper c else c) # pascal False cs)"

definition scenario_env :: "UserType \<Rightarrow> env" where
  "scenario_env cognitoUser =
     \<lparr>createCognitoUser = (\<lambda>_ _. Inr cognitoUser),
      setPassword = (\<lambda>_ _. None),
      addUserToGroups = (\<lambda>_ _. None),
      getUserByActivationCode = (\<lambda>t c. Inr (find (\<lambda>r. activationCode r = c) t)),
      getUserById = (\<lambda>t i. Inr (find (\<lambda>r. id' r = Some i) t)),
      getNanoId = ''V1StGXR8'',
      toISOString = ''2024-01-01T00:00:00.000Z'',
      toPascalCase = pascal True,
      DEFAULT_USER_AVATAR_URL = ''https://cdn.example/avatar.png'',
      sendFault = (\<lambda>_ _. None)\<rparr>"

definition scenario_input :: UserCreateInput where
  "scenario_input =
     \<lparr>UserCreateInput.name = ''  Jane   Doe '',
      UserCreateInput.email = ''jane@x.com'',
      password = ''p'',
      repeatPassword = ''p'',
      UserCreateInput.sourceIp = ''1.2.3.4'',
      UserCreateInput.sourceSystem = ''web''\<rparr>"

definition identity_with_sub :: UserType where
  "identity_with_sub =
     \<lparr>Username = Some ''jane@x.com'',
      Attributes = Some [\<lparr>Name = Some ''email'', Value = Some ''jane@x.com''\<rparr>,
                         \<lparr>Name = Some ''sub'', Value = Some ''abc-123''\<rparr>]\<rparr>"

definition identity_without_sub :: UserType where
  "identity_without_sub =
     \<lparr>Username = Some ''jane@x.com'',
      Attributes = Some [\<lparr>Name = Some ''email'', Value = Some ''jane@x.com''\<rparr>]\<rparr>"

definition identity_without_attributes :: UserType where
  "identity_without_attributes = \<lparr>Username = Some ''jane@x.com'', Attributes = None\<rparr>"

definition scenario_user :: User where
  "scenario_user =
     \<lparr>id' = Some ''abc-123'',
      createdAt = ''2024-01-01T00:00:00.000Z'',
      email = ''jane@x.com'',
      name = ''Jane Doe'',
      handle = ''@JaneDoe'',
      activationCode = ''V1StGXR8'',
      sourceIp = ''1.2.3.4'',
      role = ''USER'',
      status = ''UNCONFIRMED'',
      badges = [''NEW_MEMBER''],
      bio = \<lparr>avatarUrl = ''https://cdn.example/avatar.png''\<rparr>,
      data = [],
      sourceSystem = ''web''\<rparr>"

definition empty_world :: world where
  "empty_world = \<lparr>table = [], trace = []\<rparr>"

text \<open>A table that already holds the activation code, and one that already holds the id.\<close>

definition world_with_code :: world where
  "world_with_code = \<lparr>table = [scenario_user\<lparr>id' := Some ''zzz-999''\<rparr>], trace = []\<rparr>"

definition world_with_id :: world where
  "world_with_id = \<lparr>table = [scenario_user\<lparr>activationCode := ''Uakgb_J5''\<rparr>], trace = []\<rparr>"

text \<open>The events every run of the scenario starts with.\<close>

definition scenario_prefix :: "UserCreateInput \<Rightarrow> event list" where
  "scenario_prefix input =
     [Log Debug ''Start user registration'' (InputData input),
      CognitoCreateUser ''jane@x.com'' ''Jane Doe'',
      CognitoSetPassword ''jane@x.com'' ''p'',
      CognitoAddUserToGroups ''jane@x.com'' [USER]]"

text \<open>The states the runs of the scenario end in.\<close>

definition scenario_final_world :: world where
  "scenario_final_world =
     \<lparr>table = [scenario_user],
      trace = scenario_prefix scenario_input @
        [DynamoGetUserByActivationCode ''V1StGXR8'',
         DynamoGetUserById ''abc-123'',
         DynamoPutItem scenario_user,
         Log Info ''New user registration complete''
           (RegisteredData scenario_user identity_with_sub)]\<rparr>"

definition code_collision_world :: world where
  "code_collision_world =
     \<lparr>table = table world_with_code,
      trace = scenario_prefix scenario_input @
        [DynamoGetUserByActivationCode ''V1StGXR8'',
         Log Error ''User activationCode collision''
           (ActivationCodeCollisionData ''abc-123'' ''V1StGXR8'')]\<rparr>"

definition id_collision_world :: world where
  "id_collision_world =
     \<lparr>table = table world_with_id,
      trace = scenario_prefix scenario_input @
        [DynamoGetUserByActivationCode ''V1StGXR8'',
         DynamoGetUserById ''abc-123'',
         Log Error ''User ID collision'' (IdCollisionData ''abc-123'')]\<rparr>"

definition missing_sub_world :: world where
  "missing_sub_world = \<lparr>table = [], trace = scenario_prefix scenario_input\<rparr>"

text \<open>Two errors of the DynamoDB client, and an environment whose client is throttled.\<close>

definition throttled :: store_error where
  "throttled = \<lparr>err_name = ''ProvisionedThroughputExceededException'',
                 err_message = ''Rate exceeded''\<rparr>"

definition condition_failed :: store_error where
  "condition_failed = \<lparr>err_name = ''ConditionalCheckFailedException'',
                        err_message = ''The conditional request failed''\<rparr>"

definition faulty_env :: env where
  "faulty_env = (scenario_env identity_with_sub)\<lparr>sendFault := (\<lambda>_ _. Some throttled)\<rparr>"

section \<open>Properties\<close>

subsection \<open>What each step does to the state\<close>

lemma trace_emit [simp]: "trace (emit ev w) = trace w @ [ev]"
  by (simp add: emit_def)

lemma table_emit [simp]: "table (emit ev w) = table w"
  by (simp add: emit_def)

lemma trace_logger [simp]: "trace (logger lv msg d w) = trace w @ [Log lv msg d]"
  by (simp add: logger_def)

lemma table_logger [simp]: "table (logger lv msg d w) = table w"
  by (simp add: logger_def)

lemma registerCognitoUser_effect:
  assumes "registerCognitoUser e em nm pw g w = (r, w1)"
  shows "table w1 = table w \<and> (\<exists>xs. trace w1 = trace w @ xs \<and> list_all is_provider_call xs)"
  using assms
  by (auto simp: registerCognitoUser_def Let_def split: sum.splits option.splits)

lemma registerCognitoUser_Inr:
  assumes "registerCognitoUser e em nm pw g w = (Inr cu, w1)"
  shows "createCognitoUser e em nm = Inr cu"
  using assms
  by (auto simp: registerCognitoUser_def Let_def split: sum.splits option.splits)

lemma createUser_effect:
  assumes "createUser e u w = (r, w1)" and "id' u \<noteq> None"
  shows "\<exists>xs. trace w1 = trace w @ DynamoPutItem u # xs \<and> list_all is_error_log xs"
  using assms
  by (auto simp: createUser_def marshall_def client_send_def Let_def
      split: sum.splits option.splits if_splits)

text \<open>A record without an id is not sent: \<^verbatim>\<open>marshall\<close> throws, outside the \<^verbatim>\<open>try\<close>.\<close>

lemma createUser_undefined_id:
  assumes "id' u = None"
  shows "createUser e u w =
           (Inl (Propagated
              ''Pass options.removeUndefinedValues=true to remove undefined values from map/array/set.''),
            w)"
  using assms
  by (simp add: createUser_def marshall_def)

text \<open>The facts that evaluate a concrete run.\<close>

lemmas run_defs =
  registerUser_def registerCognitoUser_def getCognitoUserId_def checkCollisions_def
  createUser_def marshall_def client_send_def collapseSpaces_def trim_def is_space_def
  createError_def logger_def emit_def template_def upper_def new_events_def Let_def
  scenario_env_def scenario_input_def scenario_user_def scenario_prefix_def empty_world_def
  world_with_code_def world_with_id_def scenario_final_world_def code_collision_world_def
  id_collision_world_def missing_sub_world_def throttled_def condition_failed_def faulty_env_def
  identity_with_sub_def identity_without_sub_def identity_without_attributes_def

subsection \<open>Password mismatch\<close>

text \<open>
  C1. When \<^verbatim>\<open>password\<close> and \<^verbatim>\<open>repeatPassword\<close> differ, \<^verbatim>\<open>registerUser\<close> throws the
  400 error ``Password and repeat password must match''. The only thing it has done by
  then is the debug log line: no call to the identity provider, no lookup in the
  profile table and no insert into it.
\<close>

theorem registerUser_password_mismatch:
  assumes "password input \<noteq> repeatPassword input"
  shows "registerUser e input w =
           (Inl (HttpError 400 ''Password and repeat password must match''),
            w\<lparr>trace := trace w @ [Log Debug ''Start user registration'' (InputData input)]\<rparr>)
         \<and> list_all (\<lambda>ev. \<not> is_provider_call ev \<and> \<not> is_store_lookup ev \<and> \<not> is_store_insert ev)
              (new_events w (snd (registerUser e input w)))"
  using assms
  by (simp add: registerUser_def Let_def createError_def logger_def emit_def new_events_def)

theorem registerUser_password_mismatch_witness:
  "password (scenario_input\<lparr>repeatPassword := ''q''\<rparr>)
     \<noteq> repeatPassword (scenario_input\<lparr>repeatPassword := ''q''\<rparr>)
   \<and> fst (registerUser (scenario_env identity_with_sub)
            (scenario_input\<lparr>repeatPassword := ''q''\<rparr>) empty_world)
       = Inl (HttpError 400 ''Password and repeat password must match'')
   \<and> trace (snd (registerUser (scenario_env identity_with_sub)
                   (scenario_input\<lparr>repeatPassword := ''q''\<rparr>) empty_world))
       = [Log Debug ''Start user registration''
            (InputData (scenario_input\<lparr>repeatPassword := ''q''\<rparr>))]"
proof -
  have h: "password (scenario_input\<lparr>repeatPassword := ''q''\<rparr>)
             \<noteq> repeatPassword (scenario_input\<lparr>repeatPassword := ''q''\<rparr>)"
    by (simp add: scenario_input_def)
  show ?thesis
    using h registerUser_password_mismatch [OF h, of "scenario_env identity_with_sub" empty_world]
    by (simp add: empty_world_def)
qed

subsection \<open>The profile's id is the provider's \<^verbatim>\<open>sub\<close>\<close>

text \<open>
  C2. When \<^verbatim>\<open>registerUser\<close> returns a profile model, the identity provider had
  answered the create call with an identity record whose attribute list holds an
  attribute named \<^verbatim>\<open>sub\<close>, and the id of the returned profile is the \<^verbatim>\<open>Value\<close> of the
  first such attribute (a non-empty string).
\<close>

theorem registerUser_id_is_sub:
  assumes "registerUser e input w = (Inr m, w')"
  shows "\<exists>cognitoUser attrs sub.
           createCognitoUser e (collapseSpaces (UserCreateInput.email input) True)
             (collapseSpaces (UserCreateInput.name input) True) = Inr cognitoUser
           \<and> Attributes cognitoUser = Some attrs
           \<and> find (\<lambda>attr. Name attr = Some ''sub'') attrs = Some sub
           \<and> id' (user m) = Value sub \<and> Value sub \<noteq> None \<and> Value sub \<noteq> Some []"
  using assms
  apply (simp add: registerUser_def Let_def split: if_splits prod.splits sum.splits)
  apply (auto dest!: registerCognitoUser_Inr
      simp: getCognitoUserId_def checkCollisions_def createError_def
      split: option.splits if_splits)
  done

lemma scenario_run:
  "registerUser (scenario_env identity_with_sub) scenario_input empty_world =
     (Inr (UserModel scenario_user), scenario_final_world)"
  by (simp add: run_defs)

theorem registerUser_id_is_sub_witness:
  "registerUser (scenario_env identity_with_sub) scenario_input empty_world =
     (Inr (UserModel scenario_user), scenario_final_world)
   \<and> (\<exists>cognitoUser attrs sub.
         createCognitoUser (scenario_env identity_with_sub)
           (collapseSpaces (UserCreateInput.email scenario_input) True)
           (collapseSpaces (UserCreateInput.name scenario_input) True) = Inr cognitoUser
         \<and> Attributes cognitoUser = Some attrs
         \<and> find (\<lambda>attr. Name attr = Some ''sub'') attrs = Some sub
         \<and> id' (user (UserModel scenario_user)) = Value sub
         \<and> Value sub \<noteq> None \<and> Value sub \<noteq> Some [])"
  by (rule conjI [OF scenario_run registerUser_id_is_sub [OF scenario_run]])

subsection \<open>Collisions\<close>

text \<open>
  C4. Whenever a run of \<^verbatim>\<open>registerUser\<close> looks the candidate activation code up in the
  profile table and the lookup answers with an existing record, the run throws the 500
  error ``User registration failed: activationCode collision''; it has made no lookup
  by id and no insert, and the table is as it was.
\<close>

theorem registerUser_activationCode_collision:
  assumes "registerUser e input w = (r, w')"
    and "DynamoGetUserByActivationCode (getNanoId e) \<in> set (new_events w w')"
    and "getUserByActivationCode e (table w) (getNanoId e) = Inr (Some u)"
  shows "r = Inl (HttpError 500 ''User registration failed: activationCode collision'')
         \<and> list_all (\<lambda>ev. \<not> is_store_insert ev \<and> (\<forall>i. ev \<noteq> DynamoGetUserById i))
              (new_events w w')
         \<and> table w' = table w"
  using assms
  by (auto simp: registerUser_def registerCognitoUser_def getCognitoUserId_def checkCollisions_def
        createError_def new_events_def Let_def
      split: if_splits sum.splits option.splits)

lemma code_collision_run:
  "registerUser (scenario_env identity_with_sub) scenario_input world_with_code =
     (Inl (HttpError 500 ''User registration failed: activationCode collision''),
      code_collision_world)"
  by (simp add: run_defs)

theorem registerUser_activationCode_collision_witness:
  "registerUser (scenario_env identity_with_sub) scenario_input world_with_code =
     (Inl (HttpError 500 ''User registration failed: activationCode collision''),
      code_collision_world)
   \<and> DynamoGetUserByActivationCode (getNanoId (scenario_env identity_with_sub))
       \<in> set (new_events world_with_code code_collision_world)
   \<and> getUserByActivationCode (scenario_env identity_with_sub) (table world_with_code)
        (getNanoId (scenario_env identity_with_sub))
       = Inr (Some (scenario_user\<lparr>id' := Some ''zzz-999''\<rparr>))
   \<and> list_all (\<lambda>ev. \<not> is_store_insert ev \<and> (\<forall>i. ev \<noteq> DynamoGetUserById i))
        (new_events world_with_code code_collision_world)
   \<and> table code_collision_world = table world_with_code"
proof -
  have ev: "DynamoGetUserByActivationCode (getNanoId (scenario_env identity_with_sub))
              \<in> set (new_events world_with_code code_collision_world)"
    by (simp add: run_defs)
  have lk: "getUserByActivationCode (scenario_env identity_with_sub) (table world_with_code)
              (getNanoId (scenario_env identity_with_sub))
            = Inr (Some (scenario_user\<lparr>id' := Some ''zzz-999''\<rparr>))"
    by (simp add: run_defs)
  from registerUser_activationCode_collision [OF code_collision_run ev lk]
    code_collision_run ev lk
  show ?thesis by blast
qed

text \<open>
  C5. Whenever a run of \<^verbatim>\<open>registerUser\<close> looks the candidate id up in the profile
  table and the lookup answers with an existing record, the run throws the 500 error
  ``User registration failed: User id collision''. The lookup by activation code had
  found nothing, no insert has been made, and the table is as it was.
\<close>

theorem registerUser_id_collision:
  assumes "registerUser e input w = (r, w')"
    and "DynamoGetUserById idv \<in> set (new_events w w')"
    and "getUserById e (table w) idv = Inr (Some u)"
  shows "r = Inl (HttpError 500 ''User registration failed: User id collision'')
         \<and> getUserByActivationCode e (table w) (getNanoId e) = Inr None
         \<and> list_all (\<lambda>ev. \<not> is_store_insert ev) (new_events w w')
         \<and> table w' = table w"
  using assms
  by (auto simp: registerUser_def registerCognitoUser_def getCognitoUserId_def checkCollisions_def
        createUser_def marshall_def client_send_def createError_def new_events_def Let_def
      split: if_splits sum.splits option.splits)

lemma id_collision_run:
  "registerUser (scenario_env identity_with_sub) scenario_input world_with_id =
     (Inl (HttpError 500 ''User registration failed: User id collision''), id_collision_world)"
  by (simp add: run_defs)

theorem registerUser_id_collision_witness:
  "registerUser (scenario_env identity_with_sub) scenario_input world_with_id =
     (Inl (HttpError 500 ''User registration failed: User id collision''), id_collision_world)
   \<and> DynamoGetUserById ''abc-123'' \<in> set (new_events world_with_id id_collision_world)
   \<and> getUserById (scenario_env identity_with_sub) (table world_with_id) ''abc-123''
       = Inr (Some (scenario_user\<lparr>activationCode := ''Uakgb_J5''\<rparr>))
   \<and> getUserByActivationCode (scenario_env identity_with_sub) (table world_with_id)
        (getNanoId (scenario_env identity_with_sub)) = Inr None
   \<and> list_all (\<lambda>ev. \<not> is_store_insert ev) (new_events world_with_id id_collision_world)
   \<and> table id_collision_world = table world_with_id"
proof -
  have ev: "DynamoGetUserById ''abc-123'' \<in> set (new_events world_with_id id_collision_world)"
    by (simp add: run_defs)
  have lk: "getUserById (scenario_env identity_with_sub) (table world_with_id) ''abc-123''
              = Inr (Some (scenario_user\<lparr>activationCode := ''Uakgb_J5''\<rparr>))"
    by (simp add: run_defs)
  from registerUser_id_collision [OF id_collision_run ev lk] id_collision_run ev lk
  show ?thesis by blast
qed

subsection \<open>The conditional insert\<close>

text \<open>
  C6. When the item has been marshalled and the DynamoDB client rejects the conditional
  put, \<^verbatim>\<open>createUser\<close> throws the 400 error ``User id ... already exists'' if the name of
  the client's error is \<^verbatim>\<open>ConditionalCheckFailedException\<close>, and logs nothing; for an
  error of any other name it logs, at error level, ``createUser'' followed by the name
  and the message of the client's error, and throws the 500 error ``User registration
  error''.
\<close>

theorem createUser_failure:
  assumes "marshall u = Inr item"
    and "client_send e item w = (Inl err, w1)"
  shows "createUser e u w =
           (if err_name err = ''ConditionalCheckFailedException''
            then (Inl (HttpError 400 (''User id '' @ template (id' u) @ '' already exists'')), w1)
            else (Inl (HttpError 500 ''User registration error''),
                  w1\<lparr>trace := trace w1 @
                    [Log Error (''createUser '' @ err_name err @ '': '' @ err_message err)
                       NoData]\<rparr>))
         \<and> id' u \<noteq> None"
  using assms
  by (auto simp: createUser_def marshall_def createError_def logger_def emit_def
      split: option.splits)

theorem createUser_failure_witness:
  "marshall scenario_user = Inr scenario_user
   \<and> client_send (scenario_env identity_with_sub) scenario_user scenario_final_world
     = (Inl condition_failed, emit (DynamoPutItem scenario_user) scenario_final_world)
   \<and> createUser (scenario_env identity_with_sub) scenario_user scenario_final_world
     = (Inl (HttpError 400 ''User id abc-123 already exists''),
        emit (DynamoPutItem scenario_user) scenario_final_world)
   \<and> client_send faulty_env scenario_user empty_world
     = (Inl throttled, emit (DynamoPutItem scenario_user) empty_world)
   \<and> createUser faulty_env scenario_user empty_world
     = (Inl (HttpError 500 ''User registration error''),
        \<lparr>table = [],
         trace = [DynamoPutItem scenario_user,
                  Log Error ''createUser ProvisionedThroughputExceededException: Rate exceeded''
                    NoData]\<rparr>)"
proof -
  have m: "marshall scenario_user = Inr scenario_user"
    by (simp add: marshall_def scenario_user_def)
  have a: "client_send (scenario_env identity_with_sub) scenario_user scenario_final_world
             = (Inl condition_failed, emit (DynamoPutItem scenario_user) scenario_final_world)"
    by (simp add: run_defs)
  have b: "client_send faulty_env scenario_user empty_world
             = (Inl throttled, emit (DynamoPutItem scenario_user) empty_world)"
    by (simp add: run_defs)
  show ?thesis
    using m a b createUser_failure [OF m a] createUser_failure [OF m b]
    by (simp add: run_defs)
qed

subsection \<open>The collision guard only reads\<close>

text \<open>
  C8. Whatever the candidate id and activation code, and whether it returns or throws,
  \<^verbatim>\<open>checkCollisions\<close> leaves the profile table as it found it, and everything it does
  is a lookup in the table or an error log line.
\<close>

theorem checkCollisions_read_only:
  "table (snd (checkCollisions e uid code w)) = table w
   \<and> list_all (\<lambda>ev. is_store_lookup ev \<or> is_error_log ev)
        (new_events w (snd (checkCollisions e uid code w)))"
  by (auto simp: checkCollisions_def new_events_def Let_def
      split: sum.splits option.splits if_splits)

theorem checkCollisions_read_only_witness:
  "table (snd (checkCollisions (scenario_env identity_with_sub) (Some ''abc-123'') ''V1StGXR8'' world_with_id))
     = table world_with_id
   \<and> new_events world_with_id
        (snd (checkCollisions (scenario_env identity_with_sub) (Some ''abc-123'') ''V1StGXR8'' world_with_id))
     = [DynamoGetUserByActivationCode ''V1StGXR8'', DynamoGetUserById ''abc-123'',
        Log Error ''User ID collision'' (IdCollisionData ''abc-123'')]"
  using checkCollisions_read_only [of "scenario_env identity_with_sub" "Some ''abc-123''" "''V1StGXR8''" world_with_id]
  by (simp add: run_defs)

subsection \<open>The missing subject identifier\<close>

text \<open>
  When the provider's identity record has an attribute list and the list has no \<^verbatim>\<open>sub\<close>
  attribute, or the first one has no value or an empty one, \<^verbatim>\<open>registerUser\<close> throws the
  500 error ``Cognito did not return a sub/id'' without reading or writing the table.
\<close>

lemma registerUser_missing_sub:
  assumes "password input = repeatPassword input"
    and "registerCognitoUser e (collapseSpaces (UserCreateInput.email input) True)
           (collapseSpaces (UserCreateInput.name input) True) (password input) USER
           (logger Debug ''Start user registration'' (InputData input) w) = (Inr cognitoUser, w1)"
    and "Attributes cognitoUser = Some attrs"
    and "case find (\<lambda>attr. Name attr = Some ''sub'') attrs of
           None \<Rightarrow> True
         | Some sub \<Rightarrow> Value sub = None \<or> Value sub = Some []"
  shows "registerUser e input w =
           (Inl (HttpError 500 ''User registration failed: Cognito did not return a sub/id''), w1)
         \<and> list_all is_provider_call (tl (new_events w w1))
         \<and> table w1 = table w"
  using assms
  by (auto simp: registerUser_def registerCognitoUser_def getCognitoUserId_def checkCollisions_def
        createError_def new_events_def Let_def
      split: if_splits sum.splits option.splits)

text \<open>
  C3. At an identity record that has no attribute list at all, and so no \<^verbatim>\<open>sub\<close>
  attribute, \<^verbatim>\<open>registerUser\<close> does not throw a 500 error: \<^verbatim>\<open>Attributes.find\<close> throws a
  \<^verbatim>\<open>TypeError\<close>. The profile table is neither read nor written on the way.
\<close>

theorem registerUser_missing_attribute_list:
  "registerUser (scenario_env identity_without_attributes) scenario_input empty_world
     = (Inl TypeError, missing_sub_world)
   \<and> \<not> list_ex (\<lambda>ev. is_store_lookup ev \<or> is_store_insert ev) (trace missing_sub_world)"
  by (simp add: run_defs)

text \<open>
  The first branch of \<^verbatim>\<open>checkCollisions\<close> throws in the state it was called in: it
  writes no log line, where the two collision branches write one before they throw.
\<close>

lemma checkCollisions_missing_id:
  assumes "uid = None \<or> uid = Some []"
  shows "checkCollisions e uid code w =
           (Inl (HttpError 500 ''User registration failed: Cognito did not return a sub/id''), w)"
  using assms
  by (auto simp: checkCollisions_def createError_def)

text \<open>
  C9. At an identity record whose attribute list has no \<^verbatim>\<open>sub\<close> attribute,
  \<^verbatim>\<open>registerUser\<close> throws the 500 error ``Cognito did not return a sub/id'' and has
  written no log line at error level: the trace holds the debug line of the start and
  the three calls to the provider, nothing else.
\<close>

theorem registerUser_missing_sub_not_logged:
  "registerUser (scenario_env identity_without_sub) scenario_input empty_world
     = (Inl (HttpError 500 ''User registration failed: Cognito did not return a sub/id''),
        missing_sub_world)
   \<and> trace missing_sub_world =
       [Log Debug ''Start user registration'' (InputData scenario_input),
        CognitoCreateUser ''jane@x.com'' ''Jane Doe'',
        CognitoSetPassword ''jane@x.com'' ''p'',
        CognitoAddUserToGroups ''jane@x.com'' [USER]]
   \<and> \<not> list_ex is_error_log (trace missing_sub_world)"
  by (simp add: run_defs)

text \<open>
  C10. When the provider's identity record has no attribute list, \<^verbatim>\<open>getCognitoUserId\<close>
  throws a \<^verbatim>\<open>TypeError\<close> and so does \<^verbatim>\<open>registerUser\<close>, in the state the provider calls
  left. And whenever \<^verbatim>\<open>registerUser\<close> throws the 500 error ``Cognito did not return a
  sub/id'', the provider's record had an attribute list, and that list has no \<^verbatim>\<open>sub\<close>
  attribute or its first \<^verbatim>\<open>sub\<close> attribute has no value or the empty string for one.
\<close>

theorem getCognitoUserId_type_error:
  "(password input = repeatPassword input
      \<and> registerCognitoUser e (collapseSpaces (UserCreateInput.email input) True)
           (collapseSpaces (UserCreateInput.name input) True) (password input) USER
           (logger Debug ''Start user registration'' (InputData input) w) = (Inr cognitoUser, w1)
      \<and> Attributes cognitoUser = None
    \<longrightarrow> getCognitoUserId cognitoUser = Inl TypeError
        \<and> registerUser e input w = (Inl TypeError, w1))
   \<and> (registerUser e input w
        = (Inl (HttpError 500 ''User registration failed: Cognito did not return a sub/id''), w')
    \<longrightarrow> (\<exists>cognitoUser attrs.
           createCognitoUser e (collapseSpaces (UserCreateInput.email input) True)
             (collapseSpaces (UserCreateInput.name input) True) = Inr cognitoUser
           \<and> Attributes cognitoUser = Some attrs
           \<and> (case find (\<lambda>attr. Name attr = Some ''sub'') attrs of
                 None \<Rightarrow> True
               | Some sub \<Rightarrow> Value sub = None \<or> Value sub = Some [])))"
proof (intro conjI impI)
  assume h: "password input = repeatPassword input
      \<and> registerCognitoUser e (collapseSpaces (UserCreateInput.email input) True)
           (collapseSpaces (UserCreateInput.name input) True) (password input) USER
           (logger Debug ''Start user registration'' (InputData input) w) = (Inr cognitoUser, w1)
      \<and> Attributes cognitoUser = None"
  then show "getCognitoUserId cognitoUser = Inl TypeError"
    by (simp add: getCognitoUserId_def)
  with h show "registerUser e input w = (Inl TypeError, w1)"
    by (auto simp: registerUser_def Let_def)
next
  assume "registerUser e input w
        = (Inl (HttpError 500 ''User registration failed: Cognito did not return a sub/id''), w')"
  then show "\<exists>cognitoUser attrs.
           createCognitoUser e (collapseSpaces (UserCreateInput.email input) True)
             (collapseSpaces (UserCreateInput.name input) True) = Inr cognitoUser
           \<and> Attributes cognitoUser = Some attrs
           \<and> (case find (\<lambda>attr. Name attr = Some ''sub'') attrs of
                 None \<Rightarrow> True
               | Some sub \<Rightarrow> Value sub = None \<or> Value sub = Some [])"
    apply (simp add: registerUser_def Let_def createError_def split: if_splits prod.splits sum.splits)
      apply (auto dest!: registerCognitoUser_Inr
        simp: registerCognitoUser_def getCognitoUserId_def checkCollisions_def createUser_def
          marshall_def createError_def Let_def
        split: option.splits if_splits sum.splits prod.splits)
    done
qed

theorem getCognitoUserId_type_error_witness:
  "(password scenario_input = repeatPassword scenario_input
      \<and> registerCognitoUser (scenario_env identity_without_attributes)
           (collapseSpaces (UserCreateInput.email scenario_input) True)
           (collapseSpaces (UserCreateInput.name scenario_input) True) (password scenario_input) USER
           (logger Debug ''Start user registration'' (InputData scenario_input) empty_world)
          = (Inr identity_without_attributes, missing_sub_world)
      \<and> Attributes identity_without_attributes = None)
   \<and> registerUser (scenario_env identity_without_attributes) scenario_input empty_world
       = (Inl TypeError, missing_sub_world)
   \<and> registerUser (scenario_env identity_without_sub) scenario_input empty_world
       = (Inl (HttpError 500 ''User registration failed: Cognito did not return a sub/id''),
          missing_sub_world)
   \<and> (\<exists>cognitoUser attrs.
         createCognitoUser (scenario_env identity_without_sub)
           (collapseSpaces (UserCreateInput.email scenario_input) True)
           (collapseSpaces (UserCreateInput.name scenario_input) True) = Inr cognitoUser
         \<and> Attributes cognitoUser = Some attrs
         \<and> (case find (\<lambda>attr. Name attr = Some ''sub'') attrs of
               None \<Rightarrow> True
             | Some sub \<Rightarrow> Value sub = None \<or> Value sub = Some []))"
proof -
  have a: "password scenario_input = repeatPassword scenario_input
      \<and> registerCognitoUser (scenario_env identity_without_attributes)
           (collapseSpaces (UserCreateInput.email scenario_input) True)
           (collapseSpaces (UserCreateInput.name scenario_input) True) (password scenario_input) USER
           (logger Debug ''Start user registration'' (InputData scenario_input) empty_world)
          = (Inr identity_without_attributes, missing_sub_world)
      \<and> Attributes identity_without_attributes = None"
    by (simp add: run_defs)
  have b: "registerUser (scenario_env identity_without_sub) scenario_input empty_world
       = (Inl (HttpError 500 ''User registration failed: Cognito did not return a sub/id''),
          missing_sub_world)"
    by (simp add: run_defs)
  from getCognitoUserId_type_error [THEN conjunct1, THEN mp, OF a]
    getCognitoUserId_type_error [THEN conjunct2, THEN mp, OF b] a b
  show ?thesis by blast
qed

subsection \<open>The scenario of the specification\<close>

text \<open>
  C7. For the request with name ``  Jane   Doe '', email ``jane@x.com'', both passwords
  ``p'', source IP ``1.2.3.4'' and source system ``web'': when the provider calls
  succeed and the identity record's \<^verbatim>\<open>sub\<close> is ``abc-123'', both lookups of the guard find
  nothing, the insert goes through and \<^verbatim>\<open>toPascalCase\<close> turns ``Jane Doe'' into
  ``JaneDoe'', \<^verbatim>\<open>registerUser\<close> returns a profile that it has appended to the table, with
  name ``Jane Doe'', handle ``@JaneDoe'', id ``abc-123'', status ``UNCONFIRMED'' and
  badges \<^verbatim>\<open>["NEW_MEMBER"]\<close>.
\<close>

theorem registerUser_scenario:
  assumes "createCognitoUser e ''jane@x.com'' ''Jane Doe'' = Inr cognitoUser"
    and "setPassword e ''jane@x.com'' ''p'' = None"
    and "addUserToGroups e ''jane@x.com'' [USER] = None"
    and "getCognitoUserId cognitoUser = Inr (Some ''abc-123'')"
    and "getUserByActivationCode e (table w) (getNanoId e) = Inr None"
    and "getUserById e (table w) ''abc-123'' = Inr None"
    and "toPascalCase e ''Jane Doe'' = ''JaneDoe''"
    and "\<forall>u. sendFault e (table w) u = None"
    and "\<not> list_ex (\<lambda>r. id' r = Some ''abc-123'') (table w)"
  shows "\<exists>m w'. registerUser e scenario_input w = (Inr m, w')
           \<and> table w' = table w @ [user m]
           \<and> User.name (user m) = ''Jane Doe''
           \<and> handle (user m) = ''@JaneDoe''
           \<and> id' (user m) = Some ''abc-123''
           \<and> status (user m) = ''UNCONFIRMED''
           \<and> badges (user m) = [''NEW_MEMBER'']"
proof -
  have n: "collapseSpaces (UserCreateInput.name scenario_input) True = ''Jane Doe''"
    by (simp add: scenario_input_def collapseSpaces_def trim_def is_space_def)
  have m: "collapseSpaces (UserCreateInput.email scenario_input) True = ''jane@x.com''"
    by (simp add: scenario_input_def collapseSpaces_def trim_def is_space_def)
  have p: "password scenario_input = ''p''" "repeatPassword scenario_input = ''p''"
    by (simp_all add: scenario_input_def)
  have c: "registerCognitoUser e ''jane@x.com'' ''Jane Doe'' ''p'' USER w0
             = (Inr cognitoUser,
                w0\<lparr>trace := trace w0 @ [CognitoCreateUser ''jane@x.com'' ''Jane Doe'',
                  CognitoSetPassword ''jane@x.com'' ''p'',
                  CognitoAddUserToGroups ''jane@x.com'' [USER]]\<rparr>)" for w0
    using assms(1-3) by (simp add: registerCognitoUser_def emit_def)
  show ?thesis
    using assms(4-9)
    by (simp add: registerUser_def n m p c checkCollisions_def createUser_def marshall_def
        client_send_def
        logger_def emit_def Let_def)
qed

theorem registerUser_scenario_witness:
  "\<exists>m w'. registerUser (scenario_env identity_with_sub) scenario_input empty_world = (Inr m, w')
           \<and> table w' = table empty_world @ [user m]
           \<and> User.name (user m) = ''Jane Doe''
           \<and> handle (user m) = ''@JaneDoe''
           \<and> id' (user m) = Some ''abc-123''
           \<and> status (user m) = ''UNCONFIRMED''
           \<and> badges (user m) = [''NEW_MEMBER'']"
proof (rule registerUser_scenario)
  show "createCognitoUser (scenario_env identity_with_sub) ''jane@x.com'' ''Jane Doe'' = Inr identity_with_sub"
    by (simp add: scenario_env_def)
  show "setPassword (scenario_env identity_with_sub) ''jane@x.com'' ''p'' = None"
    by (simp add: scenario_env_def)
  show "addUserToGroups (scenario_env identity_with_sub) ''jane@x.com'' [USER] = None"
    by (simp add: scenario_env_def)
  show "getCognitoUserId identity_with_sub = Inr (Some ''abc-123'')"
    by (simp add: getCognitoUserId_def identity_with_sub_def)
  show "getUserByActivationCode (scenario_env identity_with_sub) (table empty_world)
          (getNanoId (scenario_env identity_with_sub)) = Inr None"
    by (simp add: scenario_env_def empty_world_def)
  show "getUserById (scenario_env identity_with_sub) (table empty_world) ''abc-123'' = Inr None"
    by (simp add: scenario_env_def empty_world_def)
  show "toPascalCase (scenario_env identity_with_sub) ''Jane Doe'' = ''JaneDoe''"
    by (simp add: scenario_env_def upper_def)
  show "\<forall>u. sendFault (scenario_env identity_with_sub) (table empty_world) u = None"
    by (simp add: scenario_env_def)
  show "\<not> list_ex (\<lambda>r. id' r = Some ''abc-123'') (table empty_world)"
    by (simp add: empty_world_def)
qed

end
